theory Spec2Isabelle
  imports Complex_Main
begin

section \<open>Text primitives of the host language\<close>

text \<open>
  The program is the invoice extractor of \<^verbatim>\<open>app.py\<close>. A Python string is modelled as a
  \<^typ>\<open>string\<close>, one \<^typ>\<open>char\<close> per code point, so the model covers texts whose code
  points are below 256. A Python \<^verbatim>\<open>float\<close> is modelled as an IEEE 754 binary64 value with
  round to nearest, ties to even, in the section on numbers below.
\<close>

definition newline :: char where
  "newline = CHR 0x0A"

definition is_space :: "char \<Rightarrow> bool" where
  \<comment> \<open>\<^verbatim>\<open>str.isspace\<close> and the class \<^verbatim>\<open>\s\<close>, on code points below 256\<close>
  "is_space c = (c \<in> set [CHR 0x09, CHR 0x0A, CHR 0x0B, CHR 0x0C, CHR 0x0D,
                           CHR 0x1C, CHR 0x1D, CHR 0x1E, CHR 0x1F, CHR 0x20,
                           CHR 0x85, CHR 0xA0])"

definition is_digit :: "char \<Rightarrow> bool" where
  \<comment> \<open>the class \<^verbatim>\<open>\d\<close>, on code points below 256\<close>
  "is_digit c = (c \<in> set ''0123456789'')"

definition strip :: "string \<Rightarrow> string" where
  \<comment> \<open>\<^verbatim>\<open>s.strip()\<close>\<close>
  "strip s = rev (dropWhile is_space (rev (dropWhile is_space s)))"

fun split_nl :: "string \<Rightarrow> string list" where
  \<comment> \<open>\<^verbatim>\<open>text.split('\n')\<close>\<close>
  "split_nl [] = [[]]"
| "split_nl (c # cs) =
     (if c = newline then [] # split_nl cs
      else (case split_nl cs of [] \<Rightarrow> [[c]] | l # ls \<Rightarrow> (c # l) # ls))"

fun contains :: "string \<Rightarrow> string \<Rightarrow> bool" where
  \<comment> \<open>\<^verbatim>\<open>sub in s\<close>\<close>
  "contains sub [] = (sub = [])"
| "contains sub (c # cs) = (take (length sub) (c # cs) = sub \<or> contains sub cs)"

definition remove_commas :: "string \<Rightarrow> string" where
  \<comment> \<open>\<^verbatim>\<open>s.replace(',', '')\<close>\<close>
  "remove_commas s = filter (\<lambda>c. c \<noteq> CHR '','') s"

definition upper :: "string \<Rightarrow> string" where
  \<comment> \<open>\<^verbatim>\<open>s.upper()\<close> on ASCII; the one caller passes text of capitals, colons and spaces\<close>
  "upper s = map (\<lambda>c. if c \<in> set ''abcdefghijklmnopqrstuvwxyz''
                        then char_of (of_char c - (32::nat)) else c) s"

datatype error = ValueError | ZeroDivisionError

section \<open>Numbers of the host language\<close>

text \<open>
  A finite \<^verbatim>\<open>float\<close> is \<open>Fin m e\<close>, the number \<open>m * 2 ^ e\<close>, in the one form that binary64
  has for it: \<open>2 ^ 52 \<le> \<bar>m\<bar> < 2 ^ 53\<close> with \<open>- 1074 \<le> e \<le> 971\<close> for a normal number,
  \<open>\<bar>m\<bar> < 2 ^ 52\<close> with \<open>e = - 1074\<close> for a subnormal one, and \<open>Fin 0 0\<close> for zero. The two
  zeros of binary64 are one value here: they compare equal, the program never divides by
  zero without raising, and no text it reads produces a negative zero. The integer \<open>0\<close>
  that the source uses where a total is absent, and as the start of \<^verbatim>\<open>sum\<close>, is the same
  value as \<^verbatim>\<open>0.0\<close>.
\<close>

datatype double = Fin int int | Inf bool | NaN

function blen :: "int \<Rightarrow> nat" where
  \<comment> \<open>the number of binary digits of a positive integer\<close>
  "blen n = (if n \<le> 0 then 0 else Suc (blen (n div 2)))"
  by pat_completeness auto
termination
  by (relation "measure nat") auto

declare blen.simps [simp del]

definition round_nearest :: "int \<Rightarrow> int \<Rightarrow> int \<Rightarrow> double" where
  \<comment> \<open>the binary64 value nearest to \<open>n / d * 2 ^ e0\<close> for \<open>d > 0\<close>, ties to the even
      mantissa, overflow to infinity: \<open>l\<close> is the binary exponent of the leading digit of
      \<open>\<bar>n\<bar> / d\<close>, \<open>e\<close> the exponent of the last kept digit, \<open>q\<close> and \<open>r\<close> the kept digits and
      what is left of them\<close>
  "round_nearest n d e0 =
     (if n = 0 then Fin 0 0
      else
        let a = \<bar>n\<bar>;
            k = int (blen a) - int (blen d);
            l = (if (if 0 \<le> k then d * 2 ^ nat k \<le> a else d \<le> a * 2 ^ nat (- k))
                 then k else k - 1);
            e = max (e0 + l - 52) (- 1074);
            sh = e0 - e;
            nn = (if 0 \<le> sh then a * 2 ^ nat sh else a);
            dd = (if 0 \<le> sh then d else d * 2 ^ nat (- sh));
            q = nn div dd;
            r = nn mod dd;
            q' = (if dd < 2 * r \<or> (2 * r = dd \<and> odd q) then q + 1 else q);
            m = (if q' = 2 ^ 53 then 2 ^ 52 else q');
            e' = (if q' = 2 ^ 53 then e + 1 else e)
        in if m = 0 then Fin 0 0
           else if 971 < e' then Inf (n < 0)
           else Fin (if n < 0 then - m else m) e')"

definition dec :: "int \<Rightarrow> nat \<Rightarrow> double" where
  \<comment> \<open>the \<^verbatim>\<open>float\<close> that the decimal numeral with digits \<open>m\<close> and \<open>k\<close> decimal places
      denotes: \<open>dec 297 2\<close> is \<^verbatim>\<open>2.97\<close>, \<open>dec 1 1\<close> is \<^verbatim>\<open>0.1\<close>, \<open>dec 100 0\<close> is \<^verbatim>\<open>100\<close>\<close>
  "dec m k = round_nearest m (10 ^ k) 0"

definition fneg :: "double \<Rightarrow> double" where
  "fneg x = (case x of Fin m e \<Rightarrow> Fin (- m) e | Inf s \<Rightarrow> Inf (\<not> s) | NaN \<Rightarrow> NaN)"

definition fabs :: "double \<Rightarrow> double" where
  \<comment> \<open>\<^verbatim>\<open>abs(x)\<close>\<close>
  "fabs x = (case x of Fin m e \<Rightarrow> Fin \<bar>m\<bar> e | Inf s \<Rightarrow> Inf False | NaN \<Rightarrow> NaN)"

fun fadd :: "double \<Rightarrow> double \<Rightarrow> double" where
  \<comment> \<open>\<^verbatim>\<open>x + y\<close>\<close>
  "fadd (Fin m1 e1) (Fin m2 e2) =
     (let e = min e1 e2 in round_nearest (m1 * 2 ^ nat (e1 - e) + m2 * 2 ^ nat (e2 - e)) 1 e)"
| "fadd (Fin m e) (Inf s) = Inf s"
| "fadd (Inf s) (Fin m e) = Inf s"
| "fadd (Inf s) (Inf t) = (if s = t then Inf s else NaN)"
| "fadd NaN y = NaN"
| "fadd x NaN = NaN"

definition fsub :: "double \<Rightarrow> double \<Rightarrow> double" where
  \<comment> \<open>\<^verbatim>\<open>x - y\<close>\<close>
  "fsub x y = fadd x (fneg y)"

fun fmul :: "double \<Rightarrow> double \<Rightarrow> double" where
  \<comment> \<open>\<^verbatim>\<open>x * y\<close>\<close>
  "fmul (Fin m1 e1) (Fin m2 e2) = round_nearest (m1 * m2) 1 (e1 + e2)"
| "fmul (Fin m e) (Inf s) = (if m = 0 then NaN else Inf (s \<noteq> (m < 0)))"
| "fmul (Inf s) (Fin m e) = (if m = 0 then NaN else Inf (s \<noteq> (m < 0)))"
| "fmul (Inf s) (Inf t) = Inf (s \<noteq> t)"
| "fmul NaN y = NaN"
| "fmul x NaN = NaN"


fun flt :: "double \<Rightarrow> double \<Rightarrow> bool" where
  \<comment> \<open>\<^verbatim>\<open>x < y\<close>\<close>
  "flt (Fin m1 e1) (Fin m2 e2) =
     (let e = min e1 e2 in m1 * 2 ^ nat (e1 - e) < m2 * 2 ^ nat (e2 - e))"
| "flt (Fin m e) (Inf s) = (\<not> s)"
| "flt (Inf s) (Fin m e) = s"
| "flt (Inf s) (Inf t) = (s \<and> \<not> t)"
| "flt NaN y = False"
| "flt x NaN = False"


definition py_max :: "double \<Rightarrow> double \<Rightarrow> double" where
  \<comment> \<open>\<^verbatim>\<open>max(a, b)\<close>: the first argument unless the second is greater\<close>
  "py_max a b = (if flt a b then b else a)"

definition digit_val :: "char \<Rightarrow> int" where
  "digit_val c = of_char c - 48"

definition digits_val :: "string \<Rightarrow> int" where
  "digits_val ds = foldl (\<lambda>a c. 10 * a + digit_val c) 0 ds"

definition py_float :: "string \<Rightarrow> error + double" where
  \<comment> \<open>\<^verbatim>\<open>float(s)\<close> on the strings the patterns below can hand over: digits with at most
      one point. Python accepts such a string exactly when it holds a digit, and gives
      the \<^verbatim>\<open>float\<close> nearest to the decimal number.\<close>
  "py_float s =
     (let ip = takeWhile is_digit s; r = dropWhile is_digit s in
      case r of
        [] \<Rightarrow> if ip = [] then Inl ValueError else Inr (dec (digits_val ip) 0)
      | c # fp \<Rightarrow>
          if c = CHR ''.'' \<and> list_all is_digit fp \<and> \<not> (ip = [] \<and> fp = [])
          then Inr (dec (digits_val (ip @ fp)) (length fp))
          else Inl ValueError)"

definition num :: "string \<Rightarrow> error + double" where
  \<comment> \<open>\<^verbatim>\<open>float(g.replace(',', ''))\<close>\<close>
  "num g = py_float (remove_commas g)"

section \<open>Regular expressions as the source writes them\<close>

text \<open>
  Every pattern of the source is a sequence of single-character classes, each taken once
  or under one of the quantifiers \<^verbatim>\<open>?\<close>, \<^verbatim>\<open>*\<close>, \<^verbatim>\<open>+\<close>, \<^verbatim>\<open>+?\<close>, with unnested capture
  groups and the anchors \<^verbatim>\<open>^\<close> and \<^verbatim>\<open>$\<close>. The matcher is the backtracking one of
  \<^verbatim>\<open>re\<close>: a greedy quantifier tries the longest run first, a lazy one the shortest, and
  the first way through the whole pattern fixes the groups.
\<close>

datatype cclass =
    Digit | Space | NonSpace | AnyChar | Lit char | Range char char | OneOf "cclass list"

fun in_class :: "cclass \<Rightarrow> char \<Rightarrow> bool" where
  "in_class Digit c = is_digit c"
| "in_class Space c = is_space c"
| "in_class NonSpace c = (\<not> is_space c)"
| "in_class AnyChar c = (c \<noteq> newline)"
| "in_class (Lit a) c = (c = a)"
| "in_class (Range a b) c = ((of_char a :: nat) \<le> of_char c \<and> (of_char c :: nat) \<le> of_char b)"
| "in_class (OneOf cls) c = list_ex (\<lambda>cl. in_class cl c) cls"

datatype rx =
    Atom cclass | Opt cclass | Star cclass | Plus cclass | PlusLazy cclass
  | GroupOpen | GroupClose | Bol | Eol

fun rep_greedy :: "cclass \<Rightarrow> nat \<Rightarrow> (nat \<Rightarrow> string \<Rightarrow> 'a option) \<Rightarrow> nat \<Rightarrow> string \<Rightarrow> 'a option" where
  "rep_greedy cl mn k i [] = (if mn = 0 then k i [] else None)"
| "rep_greedy cl mn k i (c # cs) =
     (if in_class cl c then
        (case rep_greedy cl (mn - 1) k (Suc i) cs of
           Some r \<Rightarrow> Some r
         | None \<Rightarrow> if mn = 0 then k i (c # cs) else None)
      else if mn = 0 then k i (c # cs) else None)"

fun rep_lazy :: "cclass \<Rightarrow> nat \<Rightarrow> (nat \<Rightarrow> string \<Rightarrow> 'a option) \<Rightarrow> nat \<Rightarrow> string \<Rightarrow> 'a option" where
  "rep_lazy cl mn k i [] = (if mn = 0 then k i [] else None)"
| "rep_lazy cl mn k i (c # cs) =
     (case (if mn = 0 then k i (c # cs) else None) of
        Some r \<Rightarrow> Some r
      | None \<Rightarrow> if in_class cl c then rep_lazy cl (mn - 1) k (Suc i) cs else None)"

fun run :: "rx list \<Rightarrow> string \<Rightarrow> string list \<Rightarrow> nat \<Rightarrow> string \<Rightarrow> string list option" where
  \<comment> \<open>\<open>run p g caps i s\<close>: match \<open>p\<close> at offset \<open>i\<close>, where \<open>s\<close> is the text from there on,
      \<open>g\<close> the text from the start of the open group on, \<open>caps\<close> the closed groups\<close>
  "run [] g caps i s = Some caps"
| "run (Atom cl # p) g caps i s =
     (case s of [] \<Rightarrow> None
      | c # cs \<Rightarrow> if in_class cl c then run p g caps (Suc i) cs else None)"
| "run (Opt cl # p) g caps i s =
     (case s of [] \<Rightarrow> run p g caps i []
      | c # cs \<Rightarrow>
          if in_class cl c then
            (case run p g caps (Suc i) cs of Some r \<Rightarrow> Some r | None \<Rightarrow> run p g caps i (c # cs))
          else run p g caps i (c # cs))"
| "run (Star cl # p) g caps i s = rep_greedy cl 0 (\<lambda>j t. run p g caps j t) i s"
| "run (Plus cl # p) g caps i s = rep_greedy cl 1 (\<lambda>j t. run p g caps j t) i s"
| "run (PlusLazy cl # p) g caps i s = rep_lazy cl 1 (\<lambda>j t. run p g caps j t) i s"
| "run (GroupOpen # p) g caps i s = run p s caps i s"
| "run (GroupClose # p) g caps i s = run p g (caps @ [take (length g - length s) g]) i s"
| "run (Bol # p) g caps i s = (if i = 0 then run p g caps i s else None)"
| "run (Eol # p) g caps i s = (if s = [] \<or> s = [newline] then run p g caps i s else None)"

definition rx_match :: "rx list \<Rightarrow> string \<Rightarrow> string list option" where
  \<comment> \<open>\<^verbatim>\<open>re.match(p, s)\<close>: the groups of a match at offset 0\<close>
  "rx_match p s = run p [] [] 0 s"

fun search_from :: "rx list \<Rightarrow> nat \<Rightarrow> string \<Rightarrow> string list option" where
  "search_from p i [] = run p [] [] i []"
| "search_from p i (c # cs) =
     (case run p [] [] i (c # cs) of Some r \<Rightarrow> Some r | None \<Rightarrow> search_from p (Suc i) cs)"

definition rx_search :: "rx list \<Rightarrow> string \<Rightarrow> string list option" where
  \<comment> \<open>\<^verbatim>\<open>re.search(p, s)\<close>: the groups of the match at the least offset that has one\<close>
  "rx_search p s = search_from p 0 s"

definition lits :: "string \<Rightarrow> rx list" where
  \<comment> \<open>a run of literal characters of a pattern\<close>
  "lits s = map (\<lambda>c. Atom (Lit c)) s"

definition num_field :: "rx list" where
  \<comment> \<open>\<^verbatim>\<open>([\d,]+\.?\d*)\<close>\<close>
  "num_field = [GroupOpen, Plus (OneOf [Digit, Lit (CHR '','')]), Opt (Lit (CHR ''.'')),
                Star Digit, GroupClose]"

definition general_pattern :: "rx list" where
  \<comment> \<open>\<^verbatim>\<open>^(\S+)\s+(.+?)\s+([\d,]+\.?\d*)\s+([\d,]+\.?\d*)\s+([\d,]+\.?\d*)\s+([\d,]+\.?\d*)$\<close>\<close>
  "general_pattern =
     [Bol, GroupOpen, Plus NonSpace, GroupClose, Plus Space,
      GroupOpen, PlusLazy AnyChar, GroupClose, Plus Space]
     @ num_field @ [Plus Space] @ num_field @ [Plus Space] @ num_field @ [Plus Space]
     @ num_field @ [Eol]"

definition express_fuel_pattern :: "rx list" where
  \<comment> \<open>\<^verbatim>\<open>^([A-Z]+\s*:\s*EL)\s+([A-Z\s:]+)\s+([\d,]+\.?\d*)\s+([\d,]+\.?\d*)\s+([\d,]+\.?\d*)$\<close>\<close>
  "express_fuel_pattern =
     [Bol, GroupOpen, Plus (Range (CHR ''A'') (CHR ''Z'')), Star Space, Atom (Lit (CHR '':'')),
      Star Space, Atom (Lit (CHR ''E'')), Atom (Lit (CHR ''L'')), GroupClose, Plus Space,
      GroupOpen, Plus (OneOf [Range (CHR ''A'') (CHR ''Z''), Space, Lit (CHR '':'')]),
      GroupClose, Plus Space]
     @ num_field @ [Plus Space] @ num_field @ [Plus Space] @ num_field @ [Eol]"

definition express_alt_pattern :: "rx list" where
  \<comment> \<open>\<^verbatim>\<open>^([A-Z]+\s*:\s*E[L]?)\s+([A-Z0-9,]+)\s+([\d,]+\.?\d*)\s+([\d,]+\.?\d*)\s+([\d,]+\.?\d*)$\<close>\<close>
  "express_alt_pattern =
     [Bol, GroupOpen, Plus (Range (CHR ''A'') (CHR ''Z'')), Star Space, Atom (Lit (CHR '':'')),
      Star Space, Atom (Lit (CHR ''E'')), Opt (Lit (CHR ''L'')), GroupClose, Plus Space,
      GroupOpen,
      Plus (OneOf [Range (CHR ''A'') (CHR ''Z''), Range (CHR ''0'') (CHR ''9''), Lit (CHR '','')]),
      GroupClose, Plus Space]
     @ num_field @ [Plus Space] @ num_field @ [Plus Space] @ num_field @ [Eol]"

definition legacy_fuel_pattern :: "rx list" where
  \<comment> \<open>\<^verbatim>\<open>([A-Z\s:]+)\s+([\d,]+\.?\d*)\s+([\d,]+\.?\d*)\s+([\d,]+\.?\d*)\<close>\<close>
  "legacy_fuel_pattern =
     [GroupOpen, Plus (OneOf [Range (CHR ''A'') (CHR ''Z''), Space, Lit (CHR '':'')]),
      GroupClose, Plus Space]
     @ num_field @ [Plus Space] @ num_field @ [Plus Space] @ num_field"

definition date_pattern :: "rx list" where
  \<comment> \<open>\<^verbatim>\<open>(\d{2}-\d{2}-\d{4})\<close>\<close>
  "date_pattern =
     [GroupOpen, Atom Digit, Atom Digit, Atom (Lit (CHR ''-'')), Atom Digit, Atom Digit,
      Atom (Lit (CHR ''-'')), Atom Digit, Atom Digit, Atom Digit, Atom Digit, GroupClose]"

definition ref_pattern :: "rx list" where
  \<comment> \<open>\<^verbatim>\<open>INV(\d+)\<close>\<close>
  "ref_pattern = lits ''INV'' @ [GroupOpen, Plus Digit, GroupClose]"

definition total_excl_pattern :: "rx list" where
  \<comment> \<open>\<^verbatim>\<open>Total \(Excl\)\s+([\d,]+\.?\d*)\<close>\<close>
  "total_excl_pattern = lits ''Total (Excl)'' @ [Plus Space] @ num_field"

definition total_incl_pattern :: "rx list" where
  \<comment> \<open>\<^verbatim>\<open>Total \(Incl\)\s+([\d,]+\.?\d*)\<close>\<close>
  "total_incl_pattern = lits ''Total (Incl)'' @ [Plus Space] @ num_field"

section \<open>Line items\<close>

record line_item =
  item_code :: string
  description :: string
  quantity :: double
  unit :: string
  price :: double
  tax :: double
  total :: double

text \<open>
  The four tiers of \<^verbatim>\<open>extract_line_items\<close>, one definition per \<^verbatim>\<open>if\<close> block of the loop
  body. A tier yields \<open>Some\<close> item where the source appends and continues, and \<open>None\<close>
  where control falls to the next block. Only the first block sits in a
  \<^verbatim>\<open>try ... except ValueError\<close>; in the others a failed conversion leaves the function.
\<close>

definition tier_general :: "string \<Rightarrow> line_item option" where
  "tier_general line =
     (case rx_match general_pattern line of
        Some [g1, g2, g3, g4, g5, g6] \<Rightarrow>
          (case num g3 of Inl e \<Rightarrow> None | Inr qty \<Rightarrow>
          (case num g4 of Inl e \<Rightarrow> None | Inr prc \<Rightarrow>
          (case num g5 of Inl e \<Rightarrow> None | Inr tx \<Rightarrow>
          (case num g6 of Inl e \<Rightarrow> None | Inr tot \<Rightarrow>
             (let expected_total = fmul qty prc in
              if flt (fabs (fsub tot expected_total)) (fmul expected_total (dec 1 1))
              then Some \<lparr>item_code = g1, description = strip g2, quantity = qty, unit = [],
                         price = prc, tax = tx, total = tot\<rparr>
              else None)))))
      | _ \<Rightarrow> None)"

definition tier_express :: "string \<Rightarrow> error + line_item option" where
  "tier_express line =
     (case rx_match express_fuel_pattern line of
        Some [g1, g2, g3, g4, g5] \<Rightarrow>
          (case num g3 of Inl e \<Rightarrow> Inl e | Inr qty \<Rightarrow>
          (case num g4 of Inl e \<Rightarrow> Inl e | Inr prc \<Rightarrow>
          (case num g5 of Inl e \<Rightarrow> Inl e | Inr tot \<Rightarrow>
             (let calculated_total = fmul qty prc in
              if flt (fabs (fsub calculated_total tot)) (py_max (fmul tot (dec 1 2)) (dec 1 2))
              then Inr (Some \<lparr>item_code = strip g1, description = strip g2, quantity = qty,
                              unit = [], price = prc, tax = dec 0 0, total = tot\<rparr>)
              else Inr None))))
      | _ \<Rightarrow> Inr None)"

definition alt_description :: "string \<Rightarrow> string" where
  "alt_description code =
     (if contains ''LSD'' code then ''LOW SULPHUR DIESEL : EL''
      else if contains ''PETROL'' code then ''PETROL : EL''
      else code)"

definition tier_express_alt :: "string \<Rightarrow> error + line_item option" where
  "tier_express_alt line =
     (case rx_match express_alt_pattern line of
        Some [g1, g2, g3, g4, g5] \<Rightarrow>
          (case num g3 of Inl e \<Rightarrow> Inl e | Inr qty \<Rightarrow>
          (case num g4 of Inl e \<Rightarrow> Inl e | Inr prc \<Rightarrow>
          (case num g5 of Inl e \<Rightarrow> Inl e | Inr tot \<Rightarrow>
             (let calculated_total = fmul qty prc in
              if flt (fabs (fsub calculated_total tot)) (py_max (fmul tot (dec 1 2)) (dec 1 2))
              then Inr (Some \<lparr>item_code = strip g1, description = alt_description (strip g1),
                              quantity = qty, unit = [], price = prc, tax = dec 0 0, total = tot\<rparr>)
              else Inr None))))
      | _ \<Rightarrow> Inr None)"

definition fuel_keywords :: "string list" where
  "fuel_keywords = [''DIESEL'', ''PETROL'', ''PARAFFIN'', ''EL'']"

definition tier_legacy :: "string \<Rightarrow> error + line_item option" where
  "tier_legacy line =
     (case rx_search legacy_fuel_pattern line of
        Some [g1, g2, g3, g4] \<Rightarrow>
          (case num g2 of Inl e \<Rightarrow> Inl e | Inr val1 \<Rightarrow>
          (case num g3 of Inl e \<Rightarrow> Inl e | Inr val2 \<Rightarrow>
          (case num g4 of Inl e \<Rightarrow> Inl e | Inr val3 \<Rightarrow>
             (let desc = strip g1 in
              if list_ex (\<lambda>fuel. contains fuel (upper desc)) fuel_keywords then
                (let (qty, prc, tot) =
                   (if flt (fabs (fsub val3 (fmul val1 val2))) (fmul val3 (dec 1 2))
                    then (val1, val2, val3)
                    else if flt (fabs (fsub val1 (fmul val2 val3))) (fmul val1 (dec 1 2))
                    then (val2, val3, val1)
                    else if flt (fabs (fsub val2 (fmul val1 val3))) (fmul val2 (dec 1 2))
                    then (val1, val3, val2)
                    else (val1, val2, val3))
                 in Inr (Some \<lparr>item_code = [], description = desc, quantity = qty, unit = [],
                                 price = prc, tax = dec 0 0, total = tot\<rparr>))
              else Inr None))))
      | _ \<Rightarrow> Inr None)"

definition later_tiers :: "string \<Rightarrow> error + line_item option" where
  \<comment> \<open>the blocks after the first, in the order of the source\<close>
  "later_tiers line =
     (case tier_express line of
        Inl e \<Rightarrow> Inl e
      | Inr (Some it) \<Rightarrow> Inr (Some it)
      | Inr None \<Rightarrow>
          (case tier_express_alt line of
             Inl e \<Rightarrow> Inl e
           | Inr (Some it) \<Rightarrow> Inr (Some it)
           | Inr None \<Rightarrow> tier_legacy line))"

definition match_line :: "string \<Rightarrow> error + line_item option" where
  \<comment> \<open>the loop body for one stripped line that is not skipped\<close>
  "match_line line =
     (case tier_general line of
        Some it \<Rightarrow> Inr (Some it)
      | None \<Rightarrow> later_tiers line)"

definition skipped :: "string \<Rightarrow> bool" where
  "skipped line = (line = [] \<or> contains ''Item Code'' line \<or> contains ''Item Description'' line)"

fun lines_loop :: "string list \<Rightarrow> line_item list \<Rightarrow> error + line_item list" where
  "lines_loop [] acc = Inr acc"
| "lines_loop (l # ls) acc =
     (let line = strip l in
      if skipped line then lines_loop ls acc
      else (case match_line line of
              Inl e \<Rightarrow> Inl e
            | Inr (Some it) \<Rightarrow> lines_loop ls (acc @ [it])
            | Inr None \<Rightarrow> lines_loop ls acc))"

definition extract_line_items :: "string \<Rightarrow> error + line_item list" where
  "extract_line_items text = lines_loop (split_nl text) []"

section \<open>Invoice records\<close>

record invoice =
  filename :: string
  date :: string
  our_reference :: string
  total_excl :: double
  total_incl :: double
  items :: "line_item list"

record header =
  h_date :: string
  h_reference :: string
  h_total_excl :: double
  h_total_incl :: double

definition group1 :: "string list option \<Rightarrow> string option" where
  \<comment> \<open>\<^verbatim>\<open>m.group(1) if m else None\<close> for a pattern with one group\<close>
  "group1 m = (case m of Some [g] \<Rightarrow> Some g | _ \<Rightarrow> None)"

definition header_fields :: "string \<Rightarrow> error + header" where
  \<comment> \<open>lines 37 to 55 of \<^verbatim>\<open>parse_invoice_data\<close>\<close>
  "header_fields text =
     (let d = (case group1 (rx_search date_pattern text) of Some g \<Rightarrow> g | None \<Rightarrow> []);
          r = (case group1 (rx_search ref_pattern text) of Some g \<Rightarrow> ''INV'' @ g | None \<Rightarrow> [])
      in case (case group1 (rx_search total_excl_pattern text) of
                 Some g \<Rightarrow> num g | None \<Rightarrow> Inr (dec 0 0)) of
           Inl e \<Rightarrow> Inl e
         | Inr te \<Rightarrow>
             (case (case group1 (rx_search total_incl_pattern text) of
                      Some g \<Rightarrow> num g | None \<Rightarrow> Inr (dec 0 0)) of
                Inl e \<Rightarrow> Inl e
              | Inr ti \<Rightarrow>
                  Inr \<lparr>h_date = d, h_reference = r, h_total_excl = te, h_total_incl = ti\<rparr>))"

definition parse_invoice_data :: "string \<Rightarrow> string \<Rightarrow> invoice option" where
  \<comment> \<open>the body runs under \<^verbatim>\<open>try ... except Exception: return None\<close>\<close>
  "parse_invoice_data text fname =
     (case header_fields text of
        Inl e \<Rightarrow> None
      | Inr h \<Rightarrow>
          (case extract_line_items text of
             Inl e \<Rightarrow> None
           | Inr its \<Rightarrow>
               Some \<lparr>filename = fname, date = h_date h, our_reference = h_reference h,
                     total_excl = h_total_excl h, total_incl = h_total_incl h, items = its\<rparr>))"

section \<open>Reconciliation and the export row\<close>

definition py_sum :: "double list \<Rightarrow> double" where
  \<comment> \<open>\<^verbatim>\<open>sum(xs)\<close>: from 0, left to right\<close>
  "py_sum xs = foldl fadd (dec 0 0) xs"

definition total_expected :: "invoice \<Rightarrow> double" where
  \<comment> \<open>\<^verbatim>\<open>sum(item['total'] + item.get('tax', 0) for item in invoice['items'])\<close>\<close>
  "total_expected invc = py_sum (map (\<lambda>it. fadd (total it) (tax it)) (items invc))"



datatype cell = S string | N double

type_synonym row = "(string \<times> cell) list"

definition dict_set :: "row \<Rightarrow> string \<Rightarrow> cell \<Rightarrow> row" where
  \<comment> \<open>\<^verbatim>\<open>row[k] = v\<close> on an insertion-ordered dictionary\<close>
  "dict_set r k v =
     (if k \<in> set (map fst r) then map (\<lambda>(k', v'). if k' = k then (k', v) else (k', v')) r
      else r @ [(k, v)])"

definition col :: "nat \<Rightarrow> string \<Rightarrow> string" where
  \<comment> \<open>\<^verbatim>\<open>f'Item {i+1} <name>'\<close> for \<open>i\<close> in \<^verbatim>\<open>range(3)\<close>\<close>
  "col i name = ''Item '' @ [char_of (48 + (i + 1))] @ '' '' @ name"

definition fill_slot :: "line_item list \<Rightarrow> row \<Rightarrow> nat \<Rightarrow> row" where
  \<comment> \<open>one pass of the body of \<^verbatim>\<open>for i in range(3)\<close>\<close>
  "fill_slot its r i =
     (if i < length its then
        (let it = its ! i;
             r = dict_set r (col i ''Code'') (S (item_code it));
             r = dict_set r (col i ''Description'') (S (description it));
             r = dict_set r (col i ''Quantity'') (N (quantity it));
             r = dict_set r (col i ''Unit'') (S (unit it));
             r = dict_set r (col i ''Price (Ex)'') (N (price it));
             r = dict_set r (col i ''Tax'') (N (tax it))
         in dict_set r (col i ''Total Rand'') (N (total it)))
      else
        (let r = dict_set r (col i ''Code'') (S []);
             r = dict_set r (col i ''Description'') (S []);
             r = dict_set r (col i ''Quantity'') (S []);
             r = dict_set r (col i ''Unit'') (S []);
             r = dict_set r (col i ''Price (Ex)'') (S []);
             r = dict_set r (col i ''Tax'') (S [])
         in dict_set r (col i ''Total Rand'') (S [])))"

definition excel_row :: "invoice \<Rightarrow> row" where
  \<comment> \<open>the body of the loop over invoices in \<^verbatim>\<open>convert_to_excel_format\<close>\<close>
  "excel_row invc =
     foldl (fill_slot (items invc))
       [(''Filename'', S (filename invc)), (''Date'', S (date invc)),
        (''Our Reference'', S (our_reference invc)),
        (''Total Expected'', N (total_expected invc)),
        (''Total (Incl)'', N (total_incl invc))]
       [0, 1, 2]"

definition convert_to_excel_format :: "invoice list \<Rightarrow> row list" where
  "convert_to_excel_format extracted_data = map excel_row extracted_data"

definition slot_cells :: "line_item list \<Rightarrow> nat \<Rightarrow> row" where
  \<comment> \<open>the seven cells that one pass of the loop body writes, in the order it writes them;
      used to state what \<^const>\<open>fill_slot\<close> does to a row that has none of them yet\<close>
  "slot_cells its i =
     (if i < length its then
        [(col i ''Code'', S (item_code (its ! i))),
         (col i ''Description'', S (description (its ! i))),
         (col i ''Quantity'', N (quantity (its ! i))),
         (col i ''Unit'', S (unit (its ! i))),
         (col i ''Price (Ex)'', N (price (its ! i))),
         (col i ''Tax'', N (tax (its ! i))),
         (col i ''Total Rand'', N (total (its ! i)))]
      else
        [(col i ''Code'', S []), (col i ''Description'', S []), (col i ''Quantity'', S []),
         (col i ''Unit'', S []), (col i ''Price (Ex)'', S []), (col i ''Tax'', S []),
         (col i ''Total Rand'', S [])])"

section \<open>The header contract in the words of the specification\<close>









section \<open>The matcher on the header patterns\<close>






















section \<open>Conversion failures in the tiers\<close>

text \<open>
  Claim C1 says that a captured group that does not convert to a number ends only the
  current tier's attempt, in every tier, so that \<^verbatim>\<open>extract_line_items\<close> never raises.
  The first tier does this (its \<^verbatim>\<open>except ValueError: pass\<close> is the \<open>None\<close> of
  \<^const>\<open>tier_general\<close>); the other three convert outside any \<^verbatim>\<open>try\<close>. The line
  \<^verbatim>\<open>DIESEL , 1 2\<close> is declined by the first three tiers and matched by the legacy pattern
  with the second group a lone comma, whose conversion fails: the failure is the result
  of the legacy tier and of the whole extraction, and \<^verbatim>\<open>parse_invoice_data\<close> returns
  \<^verbatim>\<open>None\<close> for the document. On the line \<^verbatim>\<open>A1 widget , 1 2 3\<close> the same lone comma is
  captured by the general pattern, where the failure is caught: the line is dropped and
  the extraction returns the empty list.
\<close>

theorem conversion_failure_leaves_extract_line_items:
  "tier_general ''DIESEL , 1 2'' = None
   \<and> tier_express ''DIESEL , 1 2'' = Inr None
   \<and> tier_express_alt ''DIESEL , 1 2'' = Inr None
   \<and> rx_search legacy_fuel_pattern ''DIESEL , 1 2'' = Some [''DIESEL'', '','', ''1'', ''2'']
   \<and> num '','' = Inl ValueError
   \<and> tier_legacy ''DIESEL , 1 2'' = Inl ValueError
   \<and> extract_line_items ''DIESEL , 1 2'' = Inl ValueError
   \<and> parse_invoice_data ''DIESEL , 1 2'' ''a.pdf'' = None
   \<and> rx_match general_pattern ''A1 widget , 1 2 3'' =
       Some [''A1'', ''widget'', '','', ''1'', ''2'', ''3'']
   \<and> extract_line_items ''A1 widget , 1 2 3'' = Inr []"
proof -
  let ?l = "''DIESEL , 1 2''"
  have g: "rx_match general_pattern ?l = None" by code_simp
  have e: "rx_match express_fuel_pattern ?l = None" by code_simp
  have a: "rx_match express_alt_pattern ?l = None" by code_simp
  have s: "rx_search legacy_fuel_pattern ?l = Some [''DIESEL'', '','', ''1'', ''2'']"
    by code_simp
  have n: "num '','' = Inl ValueError" by code_simp
  have t1: "tier_general ?l = None" by (simp add: tier_general_def g)
  have t2: "tier_express ?l = Inr None" by (simp add: tier_express_def e)
  have t3: "tier_express_alt ?l = Inr None" by (simp add: tier_express_alt_def a)
  have t4: "tier_legacy ?l = Inl ValueError" by (simp add: tier_legacy_def s n)
  have m: "match_line ?l = Inl ValueError"
    by (simp add: match_line_def later_tiers_def t1 t2 t3 t4)
  have sp: "split_nl ?l = [?l]" by code_simp
  have st: "strip ?l = ?l" by code_simp
  have sk: "\<not> skipped ?l" by code_simp
  have x: "extract_line_items ?l = Inl ValueError"
    unfolding extract_line_items_def sp by (simp add: st sk m)
  have h: "rx_search date_pattern ?l = None" "rx_search ref_pattern ?l = None"
    "rx_search total_excl_pattern ?l = None" "rx_search total_incl_pattern ?l = None"
    by code_simp+
  have hf: "header_fields ?l =
      Inr \<lparr>h_date = [], h_reference = [], h_total_excl = dec 0 0, h_total_incl = dec 0 0\<rparr>"
    by (simp add: header_fields_def h group1_def)
  have p: "parse_invoice_data ?l ''a.pdf'' = None"
    by (simp add: parse_invoice_data_def hf x)
  let ?k = "''A1 widget , 1 2 3''"
  have g': "rx_match general_pattern ?k = Some [''A1'', ''widget'', '','', ''1'', ''2'', ''3'']"
    by code_simp
  have e': "rx_match express_fuel_pattern ?k = None" by code_simp
  have a': "rx_match express_alt_pattern ?k = None" by code_simp
  have s': "rx_search legacy_fuel_pattern ?k = None" by code_simp
  have u1: "tier_general ?k = None" by (simp add: tier_general_def g' n)
  have u2: "tier_express ?k = Inr None" by (simp add: tier_express_def e')
  have u3: "tier_express_alt ?k = Inr None" by (simp add: tier_express_alt_def a')
  have u4: "tier_legacy ?k = Inr None" by (simp add: tier_legacy_def s')
  have m': "match_line ?k = Inr None"
    by (simp add: match_line_def later_tiers_def u1 u2 u3 u4)
  have sp': "split_nl ?k = [?k]" by code_simp
  have st': "strip ?k = ?k" by code_simp
  have sk': "\<not> skipped ?k" by code_simp
  have x': "extract_line_items ?k = Inr []"
    unfolding extract_line_items_def sp' by (simp add: st' sk' m')
  show ?thesis
    by (rule conjI[OF t1 conjI[OF t2 conjI[OF t3 conjI[OF s conjI[OF n conjI[OF t4
          conjI[OF x conjI[OF p conjI[OF g' x']]]]]]]]])
qed

section \<open>Facts about the numbers\<close>

lemma fmul_commute: "fmul x y = fmul y x"
  by (cases x; cases y) (auto simp: mult.commute add.commute)

lemma round_nearest_zero: "round_nearest 0 d e = Fin 0 0"
  by (simp add: round_nearest_def)

lemma dec_zero: "dec 0 k = Fin 0 0"
  by (simp add: dec_def round_nearest_zero)

lemma dec_consts:
  "dec 1 1 = Fin 7205759403792794 (- 56)" "dec 1 2 = Fin 5764607523034235 (- 59)"
  "dec 100 0 = Fin 7036874417766400 (- 46)"
  by code_simp+




lemma not_lt_zero_fabs: "\<not> flt (fabs y) (Fin 0 0)"
  by (cases y) (simp_all add: fabs_def Let_def not_less)

section \<open>The general tabular tier\<close>

lemma general_check:
  assumes "rx_match general_pattern line = Some [g1, g2, g3, g4, g5, g6]"
    and "num g3 = Inr q" and "num g4 = Inr p" and "num g5 = Inr x" and "num g6 = Inr t"
  shows "tier_general line =
           (if flt (fabs (fsub t (fmul q p))) (fmul (dec 1 1) (fmul q p))
            then Some \<lparr>item_code = g1, description = strip g2, quantity = q, unit = [],
                       price = p, tax = x, total = t\<rparr>
            else None)"
  using assms fmul_commute[of "fmul q p" "dec 1 1"] by (simp add: tier_general_def Let_def)

text \<open>
  Claim C4: the line \<^verbatim>\<open>A100 Widget Assembly 10 5.00 1.50 51.50\<close> is taken by the general
  tier and gives the item with code \<^verbatim>\<open>A100\<close>, description \<^verbatim>\<open>Widget Assembly\<close>,
  quantity 10, price 5.00, tax 1.50 and total 51.50; and on any line whose six captured
  fields convert, the general tier emits the item exactly when
  \<^verbatim>\<open>abs(total - quantity*price) < 0.10 * (quantity*price)\<close>, each operation being the one
  of \<^verbatim>\<open>float\<close> on the converted fields.
\<close>

theorem general_tier_scenario_and_tolerance:
  "tier_general ''A100 Widget Assembly 10 5.00 1.50 51.50'' =
     Some \<lparr>item_code = ''A100'', description = ''Widget Assembly'', quantity = dec 10 0,
           unit = [], price = dec 500 2, tax = dec 150 2, total = dec 5150 2\<rparr>
   \<and> match_line ''A100 Widget Assembly 10 5.00 1.50 51.50'' =
     Inr (tier_general ''A100 Widget Assembly 10 5.00 1.50 51.50'')
   \<and> (\<forall>line g1 g2 g3 g4 g5 g6 q p x t.
        rx_match general_pattern line = Some [g1, g2, g3, g4, g5, g6]
        \<and> num g3 = Inr q \<and> num g4 = Inr p \<and> num g5 = Inr x \<and> num g6 = Inr t
        \<longrightarrow> tier_general line =
              (if flt (fabs (fsub t (fmul q p))) (fmul (dec 1 1) (fmul q p))
               then Some \<lparr>item_code = g1, description = strip g2, quantity = q, unit = [],
                          price = p, tax = x, total = t\<rparr>
               else None))"
proof -
  let ?l = "''A100 Widget Assembly 10 5.00 1.50 51.50''"
  have t: "tier_general ?l =
     Some \<lparr>item_code = ''A100'', description = ''Widget Assembly'', quantity = dec 10 0,
           unit = [], price = dec 500 2, tax = dec 150 2, total = dec 5150 2\<rparr>"
    by code_simp
  have ml: "match_line ?l = Inr (tier_general ?l)"
    unfolding match_line_def t by simp
  have gen: "\<forall>line g1 g2 g3 g4 g5 g6 q p x t.
        rx_match general_pattern line = Some [g1, g2, g3, g4, g5, g6]
        \<and> num g3 = Inr q \<and> num g4 = Inr p \<and> num g5 = Inr x \<and> num g6 = Inr t
        \<longrightarrow> tier_general line =
              (if flt (fabs (fsub t (fmul q p))) (fmul (dec 1 1) (fmul q p))
               then Some \<lparr>item_code = g1, description = strip g2, quantity = q, unit = [],
                          price = p, tax = x, total = t\<rparr>
               else None)"
    by (intro allI impI, elim conjE) (rule general_check)
  show ?thesis by (rule conjI[OF t conjI[OF ml gen]])
qed

theorem general_tier_tolerance_witness:
  "rx_match general_pattern ''A1 widget 3 1 0 3.3'' =
     Some [''A1'', ''widget'', ''3'', ''1'', ''0'', ''3.3'']
   \<and> num ''3'' = Inr (dec 3 0) \<and> num ''1'' = Inr (dec 1 0) \<and> num ''0'' = Inr (dec 0 0)
   \<and> num ''3.3'' = Inr (dec 33 1)
   \<and> flt (fabs (fsub (dec 33 1) (fmul (dec 3 0) (dec 1 0))))
        (fmul (dec 1 1) (fmul (dec 3 0) (dec 1 0)))
   \<and> tier_general ''A1 widget 3 1 0 3.3'' =
     Some \<lparr>item_code = ''A1'', description = ''widget'', quantity = dec 3 0, unit = [],
           price = dec 1 0, tax = dec 0 0, total = dec 33 1\<rparr>
   \<and> rx_match general_pattern ''B200 Bolt 2 10.00 0 30.00'' =
     Some [''B200'', ''Bolt'', ''2'', ''10.00'', ''0'', ''30.00'']
   \<and> tier_general ''B200 Bolt 2 10.00 0 30.00'' = None"
proof -
  let ?l = "''A1 widget 3 1 0 3.3''"
  have m: "rx_match general_pattern ?l = Some [''A1'', ''widget'', ''3'', ''1'', ''0'', ''3.3'']"
    by code_simp
  have n: "num ''3'' = Inr (dec 3 0)" "num ''1'' = Inr (dec 1 0)" "num ''0'' = Inr (dec 0 0)"
    "num ''3.3'' = Inr (dec 33 1)"
    by code_simp+
  have c: "flt (fabs (fsub (dec 33 1) (fmul (dec 3 0) (dec 1 0))))
        (fmul (dec 1 1) (fmul (dec 3 0) (dec 1 0)))"
    by code_simp
  have s: "strip ''widget'' = ''widget''" by code_simp
  have "tier_general ?l =
      (if flt (fabs (fsub (dec 33 1) (fmul (dec 3 0) (dec 1 0))))
            (fmul (dec 1 1) (fmul (dec 3 0) (dec 1 0)))
       then Some \<lparr>item_code = ''A1'', description = strip ''widget'', quantity = dec 3 0,
                  unit = [], price = dec 1 0, tax = dec 0 0, total = dec 33 1\<rparr>
       else None)"
    by (rule general_tier_scenario_and_tolerance[THEN conjunct2, THEN conjunct2, rule_format,
          of ?l "''A1''" "''widget''" "''3''" "''1''" "''0''" "''3.3''"])
       (simp only: m n simp_thms)
  then have t: "tier_general ?l =
     Some \<lparr>item_code = ''A1'', description = ''widget'', quantity = dec 3 0, unit = [],
           price = dec 1 0, tax = dec 0 0, total = dec 33 1\<rparr>"
    unfolding s using c by (simp only: if_True)
  let ?k = "''B200 Bolt 2 10.00 0 30.00''"
  have m': "rx_match general_pattern ?k =
     Some [''B200'', ''Bolt'', ''2'', ''10.00'', ''0'', ''30.00'']"
    by code_simp
  have n': "num ''2'' = Inr (dec 2 0)" "num ''10.00'' = Inr (dec 10 0)"
    "num ''30.00'' = Inr (dec 30 0)"
    by code_simp+
  have c': "\<not> flt (fabs (fsub (dec 30 0) (fmul (dec 2 0) (dec 10 0))))
        (fmul (dec 1 1) (fmul (dec 2 0) (dec 10 0)))"
    by code_simp
  have "tier_general ?k =
      (if flt (fabs (fsub (dec 30 0) (fmul (dec 2 0) (dec 10 0))))
            (fmul (dec 1 1) (fmul (dec 2 0) (dec 10 0)))
       then Some \<lparr>item_code = ''B200'', description = strip ''Bolt'', quantity = dec 2 0,
                  unit = [], price = dec 10 0, tax = dec 0 0, total = dec 30 0\<rparr>
       else None)"
    by (rule general_tier_scenario_and_tolerance[THEN conjunct2, THEN conjunct2, rule_format,
          of ?k "''B200''" "''Bolt''" "''2''" "''10.00''" "''0''" "''30.00''"])
       (simp only: m' n' n(3) simp_thms)
  then have t': "tier_general ?k = None"
    using c' by (simp only: if_False)
  show ?thesis
    by (rule conjI[OF m conjI[OF n(1) conjI[OF n(2) conjI[OF n(3) conjI[OF n(4)
          conjI[OF c conjI[OF t conjI[OF m' t']]]]]]]])
qed

section \<open>The primary fuel tier\<close>

lemma express_check:
  assumes "rx_match express_fuel_pattern line = Some [g1, g2, g3, g4, g5]"
    and "num g3 = Inr q" and "num g4 = Inr p" and "num g5 = Inr t"
  shows "tier_express line =
           Inr (if flt (fabs (fsub (fmul q p) t)) (py_max (fmul (dec 1 2) t) (dec 1 2))
                then Some \<lparr>item_code = strip g1, description = strip g2, quantity = q,
                           unit = [], price = p, tax = dec 0 0, total = t\<rparr>
                else None)"
  using assms fmul_commute[of t "dec 1 2"] by (simp add: tier_express_def Let_def)

text \<open>
  Claim C3: the line \<^verbatim>\<open>LSD : EL LOW SULPHUR DIESEL : EL 20,049.00 24.1264 483,710.19\<close> is
  declined by the general tier and taken by the primary fuel tier, which gives the item
  with code \<^verbatim>\<open>LSD : EL\<close>, description \<^verbatim>\<open>LOW SULPHUR DIESEL : EL\<close>, quantity 20049.00,
  price 24.1264, tax 0 and total 483710.19; and on any line whose five captured fields
  convert, the primary fuel tier emits the item exactly when
  \<^verbatim>\<open>abs(quantity*price - total) < max(0.01*total, 0.01)\<close>, each operation being the one of
  \<^verbatim>\<open>float\<close> on the converted fields.
\<close>

theorem primary_fuel_scenario_and_tolerance:
  "tier_general ''LSD : EL LOW SULPHUR DIESEL : EL 20,049.00 24.1264 483,710.19'' = None
   \<and> tier_express ''LSD : EL LOW SULPHUR DIESEL : EL 20,049.00 24.1264 483,710.19'' =
     Inr (Some \<lparr>item_code = ''LSD : EL'', description = ''LOW SULPHUR DIESEL : EL'',
                quantity = dec 2004900 2, unit = [], price = dec 241264 4, tax = dec 0 0,
                total = dec 48371019 2\<rparr>)
   \<and> match_line ''LSD : EL LOW SULPHUR DIESEL : EL 20,049.00 24.1264 483,710.19'' =
     tier_express ''LSD : EL LOW SULPHUR DIESEL : EL 20,049.00 24.1264 483,710.19''
   \<and> (\<forall>line g1 g2 g3 g4 g5 q p t.
        rx_match express_fuel_pattern line = Some [g1, g2, g3, g4, g5]
        \<and> num g3 = Inr q \<and> num g4 = Inr p \<and> num g5 = Inr t
        \<longrightarrow> tier_express line =
              Inr (if flt (fabs (fsub (fmul q p) t)) (py_max (fmul (dec 1 2) t) (dec 1 2))
                   then Some \<lparr>item_code = strip g1, description = strip g2, quantity = q,
                              unit = [], price = p, tax = dec 0 0, total = t\<rparr>
                   else None))"
proof -
  let ?l = "''LSD : EL LOW SULPHUR DIESEL : EL 20,049.00 24.1264 483,710.19''"
  have t1: "tier_general ?l = None" by code_simp
  have t2: "tier_express ?l =
     Inr (Some \<lparr>item_code = ''LSD : EL'', description = ''LOW SULPHUR DIESEL : EL'',
                quantity = dec 2004900 2, unit = [], price = dec 241264 4, tax = dec 0 0,
                total = dec 48371019 2\<rparr>)"
    by code_simp
  have ml: "match_line ?l = tier_express ?l"
    unfolding match_line_def later_tiers_def t1 t2 by simp
  have gen: "\<forall>line g1 g2 g3 g4 g5 q p t.
        rx_match express_fuel_pattern line = Some [g1, g2, g3, g4, g5]
        \<and> num g3 = Inr q \<and> num g4 = Inr p \<and> num g5 = Inr t
        \<longrightarrow> tier_express line =
              Inr (if flt (fabs (fsub (fmul q p) t)) (py_max (fmul (dec 1 2) t) (dec 1 2))
                   then Some \<lparr>item_code = strip g1, description = strip g2, quantity = q,
                              unit = [], price = p, tax = dec 0 0, total = t\<rparr>
                   else None)"
    by (intro allI impI, elim conjE) (rule express_check)
  show ?thesis by (rule conjI[OF t1 conjI[OF t2 conjI[OF ml gen]]])
qed

theorem primary_fuel_tolerance_witness:
  "rx_match express_fuel_pattern ''LSD : EL DIESEL 1 2.97 3'' =
     Some [''LSD : EL'', ''DIESEL'', ''1'', ''2.97'', ''3'']
   \<and> num ''1'' = Inr (dec 1 0) \<and> num ''2.97'' = Inr (dec 297 2) \<and> num ''3'' = Inr (dec 3 0)
   \<and> flt (fabs (fsub (fmul (dec 1 0) (dec 297 2)) (dec 3 0)))
        (py_max (fmul (dec 1 2) (dec 3 0)) (dec 1 2))
   \<and> tier_express ''LSD : EL DIESEL 1 2.97 3'' =
     Inr (Some \<lparr>item_code = ''LSD : EL'', description = ''DIESEL'', quantity = dec 1 0,
                unit = [], price = dec 297 2, tax = dec 0 0, total = dec 3 0\<rparr>)
   \<and> rx_match express_fuel_pattern ''LSD : EL DIESEL 10 2.00 30.00'' =
     Some [''LSD : EL'', ''DIESEL'', ''10'', ''2.00'', ''30.00'']
   \<and> tier_express ''LSD : EL DIESEL 10 2.00 30.00'' = Inr None"
proof -
  let ?l = "''LSD : EL DIESEL 1 2.97 3''"
  have m: "rx_match express_fuel_pattern ?l =
     Some [''LSD : EL'', ''DIESEL'', ''1'', ''2.97'', ''3'']"
    by code_simp
  have n: "num ''1'' = Inr (dec 1 0)" "num ''2.97'' = Inr (dec 297 2)"
    "num ''3'' = Inr (dec 3 0)"
    by code_simp+
  have c: "flt (fabs (fsub (fmul (dec 1 0) (dec 297 2)) (dec 3 0)))
        (py_max (fmul (dec 1 2) (dec 3 0)) (dec 1 2))"
    by code_simp
  have s: "strip ''LSD : EL'' = ''LSD : EL''" "strip ''DIESEL'' = ''DIESEL''" by code_simp+
  have "tier_express ?l =
      Inr (if flt (fabs (fsub (fmul (dec 1 0) (dec 297 2)) (dec 3 0)))
                (py_max (fmul (dec 1 2) (dec 3 0)) (dec 1 2))
           then Some \<lparr>item_code = strip ''LSD : EL'', description = strip ''DIESEL'',
                      quantity = dec 1 0, unit = [], price = dec 297 2, tax = dec 0 0,
                      total = dec 3 0\<rparr>
           else None)"
    by (rule primary_fuel_scenario_and_tolerance[THEN conjunct2, THEN conjunct2, THEN conjunct2,
          rule_format, of ?l "''LSD : EL''" "''DIESEL''" "''1''" "''2.97''" "''3''"])
       (simp only: m n simp_thms)
  then have t: "tier_express ?l =
     Inr (Some \<lparr>item_code = ''LSD : EL'', description = ''DIESEL'', quantity = dec 1 0,
                unit = [], price = dec 297 2, tax = dec 0 0, total = dec 3 0\<rparr>)"
    unfolding s using c by (simp only: if_True)
  let ?k = "''LSD : EL DIESEL 10 2.00 30.00''"
  have m': "rx_match express_fuel_pattern ?k =
     Some [''LSD : EL'', ''DIESEL'', ''10'', ''2.00'', ''30.00'']"
    by code_simp
  have n': "num ''10'' = Inr (dec 10 0)" "num ''2.00'' = Inr (dec 2 0)"
    "num ''30.00'' = Inr (dec 30 0)"
    by code_simp+
  have c': "\<not> flt (fabs (fsub (fmul (dec 10 0) (dec 2 0)) (dec 30 0)))
        (py_max (fmul (dec 1 2) (dec 30 0)) (dec 1 2))"
    by code_simp
  have "tier_express ?k =
      Inr (if flt (fabs (fsub (fmul (dec 10 0) (dec 2 0)) (dec 30 0)))
                (py_max (fmul (dec 1 2) (dec 30 0)) (dec 1 2))
           then Some \<lparr>item_code = strip ''LSD : EL'', description = strip ''DIESEL'',
                      quantity = dec 10 0, unit = [], price = dec 2 0, tax = dec 0 0,
                      total = dec 30 0\<rparr>
           else None)"
    by (rule primary_fuel_scenario_and_tolerance[THEN conjunct2, THEN conjunct2, THEN conjunct2,
          rule_format, of ?k "''LSD : EL''" "''DIESEL''" "''10''" "''2.00''" "''30.00''"])
       (simp only: m' n' simp_thms)
  then have t': "tier_express ?k = Inr None"
    using c' by (simp only: if_False)
  show ?thesis
    by (rule conjI[OF m conjI[OF n(1) conjI[OF n(2) conjI[OF n(3) conjI[OF c conjI[OF t
          conjI[OF m' t']]]]]]])
qed

section \<open>The order of the tiers\<close>

text \<open>
  Claim C5 says that on a line of both the general shape and a fuel shape the general
  tier's result is the one emitted. This fails on the line
  \<^verbatim>\<open>LSD : EL 84215 14,874.00 23.7297 352,955.56\<close>, the example in the source's comment on
  the secondary fuel tier: the general pattern matches it (code \<^verbatim>\<open>LSD\<close>, description
  \<^verbatim>\<open>: EL\<close>, then four numbers), the general arithmetic check fails, and the item emitted
  is the one of the secondary fuel tier.
\<close>

theorem general_shape_fuel_result_counterexample:
  "rx_match general_pattern ''LSD : EL 84215 14,874.00 23.7297 352,955.56'' =
     Some [''LSD'', '': EL'', ''84215'', ''14,874.00'', ''23.7297'', ''352,955.56'']
   \<and> rx_match express_alt_pattern ''LSD : EL 84215 14,874.00 23.7297 352,955.56'' =
     Some [''LSD : EL'', ''84215'', ''14,874.00'', ''23.7297'', ''352,955.56'']
   \<and> tier_general ''LSD : EL 84215 14,874.00 23.7297 352,955.56'' = None
   \<and> match_line ''LSD : EL 84215 14,874.00 23.7297 352,955.56'' =
     tier_express_alt ''LSD : EL 84215 14,874.00 23.7297 352,955.56''
   \<and> match_line ''LSD : EL 84215 14,874.00 23.7297 352,955.56'' =
     Inr (Some \<lparr>item_code = ''LSD : EL'', description = ''LOW SULPHUR DIESEL : EL'',
                quantity = dec 1487400 2, unit = [], price = dec 237297 4, tax = dec 0 0,
                total = dec 35295556 2\<rparr>)"
proof -
  let ?l = "''LSD : EL 84215 14,874.00 23.7297 352,955.56''"
  have g: "rx_match general_pattern ?l =
     Some [''LSD'', '': EL'', ''84215'', ''14,874.00'', ''23.7297'', ''352,955.56'']"
    by code_simp
  have a: "rx_match express_alt_pattern ?l =
     Some [''LSD : EL'', ''84215'', ''14,874.00'', ''23.7297'', ''352,955.56'']"
    by code_simp
  have t1: "tier_general ?l = None" by code_simp
  have t2: "tier_express ?l = Inr None" by code_simp
  have t3: "tier_express_alt ?l =
     Inr (Some \<lparr>item_code = ''LSD : EL'', description = ''LOW SULPHUR DIESEL : EL'',
                quantity = dec 1487400 2, unit = [], price = dec 237297 4, tax = dec 0 0,
                total = dec 35295556 2\<rparr>)"
    by code_simp
  have ml: "match_line ?l = tier_express_alt ?l"
    unfolding match_line_def later_tiers_def t1 t2 t3 by simp
  have ml2: "match_line ?l =
     Inr (Some \<lparr>item_code = ''LSD : EL'', description = ''LOW SULPHUR DIESEL : EL'',
                quantity = dec 1487400 2, unit = [], price = dec 237297 4, tax = dec 0 0,
                total = dec 35295556 2\<rparr>)"
    unfolding ml t3 ..
  show ?thesis by (rule conjI[OF g conjI[OF a conjI[OF t1 conjI[OF ml ml2]]]])
qed

text \<open>
  Claim C5 as amended: the tiers are tried in the fixed order general, primary fuel,
  secondary fuel, legacy, and the first one that emits an item (its shape matches and its
  arithmetic check passes) gives the result of the line, whatever the later tiers would
  do; so when the general tier emits an item, that item is the result, also on a line
  that a fuel tier would accept.
\<close>

theorem first_emitting_tier_wins:
  "(tier_general line = Some it \<longrightarrow> match_line line = Inr (Some it))
   \<and> (tier_general line = None \<and> tier_express line = Inr (Some it)
        \<longrightarrow> match_line line = Inr (Some it))
   \<and> (tier_general line = None \<and> tier_express line = Inr None
        \<and> tier_express_alt line = Inr (Some it)
        \<longrightarrow> match_line line = Inr (Some it))
   \<and> (tier_general line = None \<and> tier_express line = Inr None
        \<and> tier_express_alt line = Inr None
        \<longrightarrow> match_line line = tier_legacy line)"
  by (simp add: match_line_def later_tiers_def)

theorem first_emitting_tier_wins_witness:
  "tier_general ''LSD : EL 1 10 1 10'' =
     Some \<lparr>item_code = ''LSD'', description = '': EL'', quantity = dec 1 0, unit = [],
           price = dec 10 0, tax = dec 1 0, total = dec 10 0\<rparr>
   \<and> tier_express_alt ''LSD : EL 1 10 1 10'' =
     Inr (Some \<lparr>item_code = ''LSD : EL'', description = ''LOW SULPHUR DIESEL : EL'',
                quantity = dec 10 0, unit = [], price = dec 1 0, tax = dec 0 0,
                total = dec 10 0\<rparr>)
   \<and> match_line ''LSD : EL 1 10 1 10'' =
     Inr (Some \<lparr>item_code = ''LSD'', description = '': EL'', quantity = dec 1 0, unit = [],
                price = dec 10 0, tax = dec 1 0, total = dec 10 0\<rparr>)"
proof -
  let ?l = "''LSD : EL 1 10 1 10''"
  have t1: "tier_general ?l =
     Some \<lparr>item_code = ''LSD'', description = '': EL'', quantity = dec 1 0, unit = [],
           price = dec 10 0, tax = dec 1 0, total = dec 10 0\<rparr>"
    by code_simp
  have t3: "tier_express_alt ?l =
     Inr (Some \<lparr>item_code = ''LSD : EL'', description = ''LOW SULPHUR DIESEL : EL'',
                quantity = dec 10 0, unit = [], price = dec 1 0, tax = dec 0 0,
                total = dec 10 0\<rparr>)"
    by code_simp
  have ml: "match_line ?l =
     Inr (Some \<lparr>item_code = ''LSD'', description = '': EL'', quantity = dec 1 0, unit = [],
                price = dec 10 0, tax = dec 1 0, total = dec 10 0\<rparr>)"
    by (rule first_emitting_tier_wins[THEN conjunct1, rule_format, OF t1])
  show ?thesis by (rule conjI[OF t1 conjI[OF t3 ml]])
qed

section \<open>A zero product in the general tier\<close>

lemma flt_nan_right: "flt x NaN = False"
  by (cases x) simp_all

text \<open>
  Claim C9: on a line whose six general-tier fields convert with
  \<^verbatim>\<open>quantity * price\<close> equal to 0, or with the quantity or the price 0, the general tier
  emits nothing, also when the total is 0, because \<^verbatim>\<open>abs(total - 0) < 0 * 0.1\<close> cannot hold;
  the result of the line is then the result of the later tiers.
\<close>

theorem general_tier_rejects_zero_product:
  assumes "rx_match general_pattern line = Some [g1, g2, g3, g4, g5, g6]"
    and "num g3 = Inr q" and "num g4 = Inr p" and "num g5 = Inr x" and "num g6 = Inr t"
    and "fmul q p = dec 0 0 \<or> q = dec 0 0 \<or> p = dec 0 0"
  shows "tier_general line = None \<and> match_line line = later_tiers line"
proof -
  have z: "fmul q p = Fin 0 0 \<or> fmul q p = NaN"
  proof -
    have l: "fmul (Fin 0 0) y = Fin 0 0 \<or> fmul (Fin 0 0) y = NaN" for y
      by (cases y) (simp_all add: round_nearest_zero)
    from assms(6) consider "fmul q p = Fin 0 0" | "q = Fin 0 0" | "p = Fin 0 0"
      unfolding dec_zero by blast
    then show ?thesis
    proof cases
      case 1
      then show ?thesis by simp
    next
      case 2
      then show ?thesis using l[of p] by simp
    next
      case 3
      then show ?thesis using l[of q] fmul_commute[of q p] by simp
    qed
  qed
  have "\<not> flt (fabs (fsub t (fmul q p))) (fmul (dec 1 1) (fmul q p))"
  proof -
    from z show ?thesis
    proof
      assume "fmul q p = Fin 0 0"
      then have "fmul (dec 1 1) (fmul q p) = Fin 0 0"
        unfolding dec_consts by (simp add: round_nearest_zero)
      then show ?thesis by (simp only: not_lt_zero_fabs not_False_eq_True)
    next
      assume "fmul q p = NaN"
      then have "fmul (dec 1 1) (fmul q p) = NaN" unfolding dec_consts by simp
      then show ?thesis by (simp only: flt_nan_right not_False_eq_True)
    qed
  qed
  then have "tier_general line = None"
    unfolding general_check[OF assms(1-5)] by simp
  then show ?thesis by (simp add: match_line_def)
qed

theorem general_tier_rejects_zero_product_witness:
  "rx_match general_pattern ''DIESEL FUEL 0 5.00 0 0'' =
     Some [''DIESEL'', ''FUEL'', ''0'', ''5.00'', ''0'', ''0'']
   \<and> num ''0'' = Inr (dec 0 0) \<and> num ''5.00'' = Inr (dec 500 2)
   \<and> fmul (dec 0 0) (dec 500 2) = dec 0 0
   \<and> tier_general ''DIESEL FUEL 0 5.00 0 0'' = None
   \<and> match_line ''DIESEL FUEL 0 5.00 0 0'' =
     Inr (Some \<lparr>item_code = [], description = ''DIESEL FUEL'', quantity = dec 0 0, unit = [],
                price = dec 500 2, tax = dec 0 0, total = dec 0 0\<rparr>)"
proof -
  let ?l = "''DIESEL FUEL 0 5.00 0 0''"
  have g: "rx_match general_pattern ?l = Some [''DIESEL'', ''FUEL'', ''0'', ''5.00'', ''0'', ''0'']"
    by code_simp
  have n: "num ''0'' = Inr (dec 0 0)" "num ''5.00'' = Inr (dec 500 2)"
    by code_simp+
  have z: "fmul (dec 0 0) (dec 500 2) = dec 0 0" by code_simp
  note r = general_tier_rejects_zero_product[OF g n(1) n(2) n(1) n(1) disjI1[OF z]]
  have l: "later_tiers ?l =
     Inr (Some \<lparr>item_code = [], description = ''DIESEL FUEL'', quantity = dec 0 0, unit = [],
                price = dec 500 2, tax = dec 0 0, total = dec 0 0\<rparr>)"
    by code_simp
  have ml: "match_line ?l =
     Inr (Some \<lparr>item_code = [], description = ''DIESEL FUEL'', quantity = dec 0 0, unit = [],
                price = dec 500 2, tax = dec 0 0, total = dec 0 0\<rparr>)"
    unfolding r[THEN conjunct2] l ..
  show ?thesis
    by (rule conjI[OF g conjI[OF n(1) conjI[OF n(2) conjI[OF z conjI[OF r[THEN conjunct1] ml]]]]])
qed

section \<open>The legacy fallback tier\<close>

lemma contains_map: "contains sub s \<Longrightarrow> contains (map f sub) (map f s)"
proof (induction s)
  case Nil
  then show ?case by simp
next
  case (Cons c cs)
  show ?case
  proof (cases "take (length sub) (c # cs) = sub")
    case True
    then have "take (length (map f sub)) (map f (c # cs)) = map f sub"
      by (metis length_map take_map)
    then show ?thesis by simp
  next
    case False
    then have "contains sub cs" using Cons.prems by simp
    then show ?thesis using Cons.IH by simp
  qed
qed

lemma upper_keyword: "kw \<in> set fuel_keywords \<Longrightarrow> upper kw = kw"
  by (auto simp: fuel_keywords_def upper_def)

lemma keyword_gate:
  assumes "kw \<in> set fuel_keywords" and "contains kw d"
  shows "list_ex (\<lambda>fuel. contains fuel (upper d)) fuel_keywords"
proof -
  have "contains (upper kw) (upper d)"
    unfolding upper_def by (rule contains_map) (rule assms(2))
  then have "contains kw (upper d)" using upper_keyword[OF assms(1)] by simp
  then show ?thesis using assms(1) by (auto simp: list_ex_iff)
qed

text \<open>
  Claim C2: a line that the first three tiers decline, that the legacy pattern matches
  with a description and three numeric fields \<open>val1\<close>, \<open>val2\<close>, \<open>val3\<close>, and whose
  description contains one of \<^verbatim>\<open>DIESEL\<close>, \<^verbatim>\<open>PETROL\<close>, \<^verbatim>\<open>PARAFFIN\<close>, \<^verbatim>\<open>EL\<close>, always yields
  an item. Its quantity, price and total are the first of the orderings
  (a) \<open>val1, val2, val3\<close>, (b) \<open>val2, val3, val1\<close>, (c) \<open>val1, val3, val2\<close> for which
  \<^verbatim>\<open>abs(total - quantity*price) < total * 0.01\<close> holds in \<^verbatim>\<open>float\<close> arithmetic, and
  ordering (a) when none passes.
\<close>

theorem legacy_tier_orderings:
  assumes "tier_general line = None" and "tier_express line = Inr None"
    and "tier_express_alt line = Inr None"
    and "rx_search legacy_fuel_pattern line = Some [g1, g2, g3, g4]"
    and "num g2 = Inr val1" and "num g3 = Inr val2" and "num g4 = Inr val3"
    and "kw \<in> set [''DIESEL'', ''PETROL'', ''PARAFFIN'', ''EL'']"
    and "contains kw (strip g1)"
  shows "\<exists>q p t.
      match_line line =
        Inr (Some \<lparr>item_code = [], description = strip g1, quantity = q, unit = [],
                   price = p, tax = dec 0 0, total = t\<rparr>)
      \<and> (flt (fabs (fsub val3 (fmul val1 val2))) (fmul val3 (dec 1 2))
           \<longrightarrow> (q, p, t) = (val1, val2, val3))
      \<and> (\<not> flt (fabs (fsub val3 (fmul val1 val2))) (fmul val3 (dec 1 2))
           \<and> flt (fabs (fsub val1 (fmul val2 val3))) (fmul val1 (dec 1 2))
           \<longrightarrow> (q, p, t) = (val2, val3, val1))
      \<and> (\<not> flt (fabs (fsub val3 (fmul val1 val2))) (fmul val3 (dec 1 2))
           \<and> \<not> flt (fabs (fsub val1 (fmul val2 val3))) (fmul val1 (dec 1 2))
           \<and> flt (fabs (fsub val2 (fmul val1 val3))) (fmul val2 (dec 1 2))
           \<longrightarrow> (q, p, t) = (val1, val3, val2))
      \<and> (\<not> flt (fabs (fsub val3 (fmul val1 val2))) (fmul val3 (dec 1 2))
           \<and> \<not> flt (fabs (fsub val1 (fmul val2 val3))) (fmul val1 (dec 1 2))
           \<and> \<not> flt (fabs (fsub val2 (fmul val1 val3))) (fmul val2 (dec 1 2))
           \<longrightarrow> (q, p, t) = (val1, val2, val3))"
proof -
  have k: "kw \<in> set fuel_keywords" using assms(8) by (simp add: fuel_keywords_def)
  have gate: "list_ex (\<lambda>fuel. contains fuel (upper (strip g1))) fuel_keywords"
    by (rule keyword_gate[OF k assms(9)])
  have ml: "match_line line = tier_legacy line"
    by (simp add: match_line_def later_tiers_def assms(1-3))
  let ?a = "flt (fabs (fsub val3 (fmul val1 val2))) (fmul val3 (dec 1 2))"
  let ?b = "flt (fabs (fsub val1 (fmul val2 val3))) (fmul val1 (dec 1 2))"
  let ?c = "flt (fabs (fsub val2 (fmul val1 val3))) (fmul val2 (dec 1 2))"
  let ?item = "\<lambda>q p t. Inr (Some \<lparr>item_code = [], description = strip g1, quantity = q,
                  unit = [], price = p, tax = dec 0 0, total = t\<rparr>) :: error + line_item option"
  have tl: "tier_legacy line =
      (if ?a then ?item val1 val2 val3
       else if ?b then ?item val2 val3 val1
       else if ?c then ?item val1 val3 val2
       else ?item val1 val2 val3)"
    using assms(4-7) gate by (simp add: tier_legacy_def Let_def)
  consider (a) ?a | (b) "\<not> ?a" ?b | (c) "\<not> ?a" "\<not> ?b" ?c | (d) "\<not> ?a" "\<not> ?b" "\<not> ?c"
    by blast
  then show ?thesis
  proof cases
    case a
    then have "match_line line = ?item val1 val2 val3" unfolding ml tl by simp
    then show ?thesis using a by blast
  next
    case b
    then have "match_line line = ?item val2 val3 val1" unfolding ml tl by simp
    then show ?thesis using b by blast
  next
    case c
    then have "match_line line = ?item val1 val3 val2" unfolding ml tl by simp
    then show ?thesis using c by blast
  next
    case d
    then have "match_line line = ?item val1 val2 val3" unfolding ml tl by simp
    then show ?thesis using d by blast
  qed
qed

theorem legacy_tier_orderings_witness:
  "tier_general ''DIESEL 3 1 2.97'' = None
   \<and> tier_express ''DIESEL 3 1 2.97'' = Inr None
   \<and> tier_express_alt ''DIESEL 3 1 2.97'' = Inr None
   \<and> rx_search legacy_fuel_pattern ''DIESEL 3 1 2.97'' = Some [''DIESEL'', ''3'', ''1'', ''2.97'']
   \<and> num ''3'' = Inr (dec 3 0) \<and> num ''1'' = Inr (dec 1 0) \<and> num ''2.97'' = Inr (dec 297 2)
   \<and> contains ''DIESEL'' (strip ''DIESEL'')
   \<and> \<not> flt (fabs (fsub (dec 297 2) (fmul (dec 3 0) (dec 1 0)))) (fmul (dec 297 2) (dec 1 2))
   \<and> flt (fabs (fsub (dec 3 0) (fmul (dec 1 0) (dec 297 2)))) (fmul (dec 3 0) (dec 1 2))
   \<and> match_line ''DIESEL 3 1 2.97'' =
       Inr (Some \<lparr>item_code = [], description = ''DIESEL'', quantity = dec 1 0, unit = [],
                  price = dec 297 2, tax = dec 0 0, total = dec 3 0\<rparr>)"
proof -
  let ?l = "''DIESEL 3 1 2.97''"
  have s: "rx_search legacy_fuel_pattern ?l = Some [''DIESEL'', ''3'', ''1'', ''2.97'']"
    by code_simp
  have n: "num ''3'' = Inr (dec 3 0)" "num ''1'' = Inr (dec 1 0)" "num ''2.97'' = Inr (dec 297 2)"
    by code_simp+
  have st: "strip ''DIESEL'' = ''DIESEL''" by code_simp
  have c: "contains ''DIESEL'' (strip ''DIESEL'')" by code_simp
  have t1: "tier_general ?l = None" by code_simp
  have t2: "tier_express ?l = Inr None" by code_simp
  have t3: "tier_express_alt ?l = Inr None" by code_simp
  have k: "''DIESEL'' \<in> set [''DIESEL'', ''PETROL'', ''PARAFFIN'', ''EL'']" by simp
  have na: "\<not> flt (fabs (fsub (dec 297 2) (fmul (dec 3 0) (dec 1 0)))) (fmul (dec 297 2) (dec 1 2))"
    by code_simp
  have b: "flt (fabs (fsub (dec 3 0) (fmul (dec 1 0) (dec 297 2)))) (fmul (dec 3 0) (dec 1 2))"
    by code_simp
  obtain q p t where
    m: "match_line ?l =
        Inr (Some \<lparr>item_code = [], description = strip ''DIESEL'', quantity = q, unit = [],
                   price = p, tax = dec 0 0, total = t\<rparr>)"
    and i: "\<not> flt (fabs (fsub (dec 297 2) (fmul (dec 3 0) (dec 1 0)))) (fmul (dec 297 2) (dec 1 2))
           \<and> flt (fabs (fsub (dec 3 0) (fmul (dec 1 0) (dec 297 2)))) (fmul (dec 3 0) (dec 1 2))
           \<longrightarrow> (q, p, t) = (dec 1 0, dec 297 2, dec 3 0)"
    using legacy_tier_orderings[OF t1 t2 t3 s n k c] by (elim exE conjE)
  have "(q, p, t) = (dec 1 0, dec 297 2, dec 3 0)" using i na b by (simp only: simp_thms)
  then have "q = dec 1 0" "p = dec 297 2" "t = dec 3 0" by (simp_all only: prod.inject)
  then have ml: "match_line ?l =
       Inr (Some \<lparr>item_code = [], description = ''DIESEL'', quantity = dec 1 0, unit = [],
                  price = dec 297 2, tax = dec 0 0, total = dec 3 0\<rparr>)"
    using m unfolding st by (simp only:)
  show ?thesis
    by (rule conjI[OF t1 conjI[OF t2 conjI[OF t3 conjI[OF s conjI[OF n(1) conjI[OF n(2)
          conjI[OF n(3) conjI[OF c conjI[OF na conjI[OF b ml]]]]]]]]]])
qed

section \<open>Reconciliation\<close>














section \<open>The export row\<close>

lemma col_inj: "(col i a = col i b) = (a = b)"
  by (simp add: col_def)

lemma dict_set_fresh: "k \<notin> fst ` set r \<Longrightarrow> dict_set r k v = r @ [(k, v)]"
  by (simp add: dict_set_def)

lemma fill_slot_fresh:
  assumes "\<And>name. col i name \<notin> fst ` set r"
  shows "fill_slot its r i = r @ slot_cells its i"
  using assms
  by (simp add: fill_slot_def slot_cells_def Let_def dict_set_fresh col_inj image_Un)

lemma digit_chars:
  "char_of (48 + (0 + 1) :: nat) = CHR ''1''" "char_of (48 + (1 + 1) :: nat) = CHR ''2''"
  "char_of (48 + (2 + 1) :: nat) = CHR ''3''"
  by code_simp+

lemma col_simps:
  "col 0 n = ''Item 1 '' @ n" "col 1 n = ''Item 2 '' @ n" "col 2 n = ''Item 3 '' @ n"
  unfolding col_def digit_chars by simp_all

lemma col_Suc_0: "col (Suc 0) n = ''Item 2 '' @ n"
  using col_simps(2)[of n] by simp


lemma keys_slot_cells:
  "map fst (slot_cells its i) =
     [col i ''Code'', col i ''Description'', col i ''Quantity'', col i ''Unit'',
      col i ''Price (Ex)'', col i ''Tax'', col i ''Total Rand'']"
  by (simp add: slot_cells_def)

lemma excel_row_cells:
  "excel_row invc =
     [(''Filename'', S (filename invc)), (''Date'', S (date invc)),
      (''Our Reference'', S (our_reference invc)),
      (''Total Expected'', N (total_expected invc)),
      (''Total (Incl)'', N (total_incl invc))]
     @ slot_cells (items invc) 0 @ slot_cells (items invc) 1 @ slot_cells (items invc) 2"
proof -
  let ?b = "[(''Filename'', S (filename invc)), (''Date'', S (date invc)),
      (''Our Reference'', S (our_reference invc)),
      (''Total Expected'', N (total_expected invc)),
      (''Total (Incl)'', N (total_incl invc))]"
  let ?its = "items invc"
  have k: "\<And>r. fst ` set r = set (map fst r)" by simp
  have f0: "fill_slot ?its ?b 0 = ?b @ slot_cells ?its 0"
    by (rule fill_slot_fresh) (simp add: col_simps)
  have f1: "fill_slot ?its (?b @ slot_cells ?its 0) 1 = (?b @ slot_cells ?its 0) @ slot_cells ?its 1"
    by (rule fill_slot_fresh) (simp only: k map_append keys_slot_cells, simp add: col_simps col_Suc_0)
  have f2: "fill_slot ?its ((?b @ slot_cells ?its 0) @ slot_cells ?its 1) 2 =
      ((?b @ slot_cells ?its 0) @ slot_cells ?its 1) @ slot_cells ?its 2"
    by (rule fill_slot_fresh) (simp only: k map_append keys_slot_cells, simp add: col_simps col_Suc_0)
  have "excel_row invc = fill_slot ?its (fill_slot ?its (fill_slot ?its ?b 0) 1) 2"
    by (simp add: excel_row_def)
  then show ?thesis unfolding f0 f1 f2 by simp
qed


lemma map_of_append_fresh_l: "k \<notin> fst ` set xs \<Longrightarrow> map_of (xs @ ys) k = map_of ys k"
  by (simp add: map_add_def map_of_eq_None_iff[symmetric] split: option.splits)

lemma map_of_append_fresh_r: "k \<notin> fst ` set ys \<Longrightarrow> map_of (xs @ ys) k = map_of xs k"
  by (simp add: map_add_def map_of_eq_None_iff[symmetric] split: option.splits)

lemma col_not_header:
  "col i a \<noteq> ''Filename''" "col i a \<noteq> ''Date''" "col i a \<noteq> ''Our Reference''"
  "col i a \<noteq> ''Total Expected''" "col i a \<noteq> ''Total (Incl)''"
  by (simp_all add: col_def)

lemma slot_lookup:
  assumes "j < 3"
  shows "map_of (excel_row invc) (col j name) = map_of (slot_cells (items invc) j) (col j name)"
proof -
  have k: "\<And>r. fst ` set r = set (map fst r)" by simp
  from assms consider "j = 0" | "j = 1" | "j = 2" by linarith
  then show ?thesis
  proof cases
    case 1
    have a: "col 0 name \<notin> fst ` set (slot_cells (items invc) 1 @ slot_cells (items invc) 2)"
      by (simp only: k map_append keys_slot_cells) (simp add: col_simps col_Suc_0)
    show ?thesis unfolding 1 excel_row_cells
      by (subst map_of_append_fresh_l, simp add: col_not_header)
         (simp only: map_of_append_fresh_r[OF a])
  next
    case 2
    have a: "col 1 name \<notin> fst ` set (slot_cells (items invc) 0)"
      by (simp only: k keys_slot_cells) (simp add: col_simps col_Suc_0)
    have b: "col 1 name \<notin> fst ` set (slot_cells (items invc) 2)"
      by (simp only: k keys_slot_cells) (simp add: col_simps col_Suc_0)
    show ?thesis unfolding 2 excel_row_cells
      by (subst map_of_append_fresh_l, simp add: col_not_header)
         (simp only: map_of_append_fresh_l[OF a] map_of_append_fresh_r[OF b])
  next
    case 3
    have a: "col 2 name \<notin> fst ` set (slot_cells (items invc) 0)"
      by (simp only: k keys_slot_cells) (simp add: col_simps col_Suc_0)
    have b: "col 2 name \<notin> fst ` set (slot_cells (items invc) 1)"
      by (simp only: k keys_slot_cells) (simp add: col_simps col_Suc_0)
    show ?thesis unfolding 3 excel_row_cells
      by (subst map_of_append_fresh_l, simp add: col_not_header)
         (simp only: map_of_append_fresh_l[OF a] map_of_append_fresh_l[OF b])
  qed
qed








section \<open>The unit field\<close>

lemma tier_general_unit: "tier_general line = Some it \<Longrightarrow> unit it = []"
  by (auto simp: tier_general_def Let_def split: option.splits list.splits sum.splits if_splits)

lemma tier_express_unit: "tier_express line = Inr (Some it) \<Longrightarrow> unit it = []"
  by (auto simp: tier_express_def Let_def split: option.splits list.splits sum.splits if_splits)

lemma tier_express_alt_unit: "tier_express_alt line = Inr (Some it) \<Longrightarrow> unit it = []"
  by (auto simp: tier_express_alt_def Let_def split: option.splits list.splits sum.splits if_splits)

lemma tier_legacy_unit: "tier_legacy line = Inr (Some it) \<Longrightarrow> unit it = []"
  by (auto simp: tier_legacy_def Let_def split: option.splits list.splits sum.splits if_splits)

lemma match_line_unit: "match_line line = Inr (Some it) \<Longrightarrow> unit it = []"
  by (auto simp: match_line_def later_tiers_def
      dest: tier_general_unit tier_express_unit tier_express_alt_unit tier_legacy_unit
      split: option.splits sum.splits)

lemma lines_loop_unit:
  "\<forall>it\<in>set acc. unit it = [] \<Longrightarrow> lines_loop ls acc = Inr its \<Longrightarrow> \<forall>it\<in>set its. unit it = []"
proof (induction ls arbitrary: acc)
  case Nil
  then show ?case by simp
next
  case (Cons l ls)
  show ?case
  proof (cases "skipped (strip l)")
    case True
    then show ?thesis using Cons by (simp add: Let_def)
  next
    case False
    show ?thesis
    proof (cases "match_line (strip l)")
      case (Inl e)
      then show ?thesis using Cons.prems False by (simp add: Let_def)
    next
      case (Inr r)
      show ?thesis
      proof (cases r)
        case None
        then show ?thesis using Cons Inr False by (simp add: Let_def)
      next
        case (Some it)
        have "unit it = []" using Inr Some by (simp add: match_line_unit)
        then have "\<forall>x\<in>set (acc @ [it]). unit x = []" using Cons.prems(1) by simp
        moreover have "lines_loop ls (acc @ [it]) = Inr its"
          using Cons.prems(2) Inr Some False by (simp add: Let_def)
        ultimately show ?thesis by (rule Cons.IH)
      qed
    qed
  qed
qed


text \<open>
  Claim C10: every item that the extraction returns, from whichever tier, has the empty
  string as its unit; so in the export row of every parsed document the Unit column of
  each of the three slots is the empty string, whether the slot is populated or not.
\<close>

theorem unit_always_empty:
  "(extract_line_items doc = Inr its \<longrightarrow> (\<forall>it\<in>set its. unit it = []))
   \<and> (parse_invoice_data doc fname = Some invc \<longrightarrow>
        (\<forall>j<3. map_of (excel_row invc) (col j ''Unit'') = Some (S [])))"
proof -
  have a: "extract_line_items doc = Inr its \<Longrightarrow> \<forall>it\<in>set its. unit it = []" for its
    unfolding extract_line_items_def by (rule lines_loop_unit[of "[]"]) simp_all
  have b: "map_of (excel_row invc) (col j ''Unit'') = Some (S [])"
    if p: "parse_invoice_data doc fname = Some invc" and j: "j < 3" for j
  proof -
    obtain xs where x: "extract_line_items doc = Inr xs" "items invc = xs"
      using p by (auto simp: parse_invoice_data_def split: sum.splits)
    then have u: "\<forall>it\<in>set (items invc). unit it = []" using a by simp
    show ?thesis
    proof (cases "j < length (items invc)")
      case True
      then have "unit (items invc ! j) = []" using u by simp
      then show ?thesis using True j by (simp add: slot_lookup slot_cells_def col_inj)
    next
      case False
      then show ?thesis using j by (simp add: slot_lookup slot_cells_def col_inj)
    qed
  qed
  show ?thesis using a b by blast
qed

theorem unit_always_empty_witness:
  "extract_line_items ''DIESEL 100 2.00 200.00'' =
     Inr [\<lparr>item_code = [], description = ''DIESEL'', quantity = dec 100 0, unit = [],
           price = dec 200 2, tax = dec 0 0, total = dec 20000 2\<rparr>]
   \<and> parse_invoice_data ''DIESEL 100 2.00 200.00'' ''a.pdf'' =
     Some \<lparr>filename = ''a.pdf'', date = [], our_reference = [], total_excl = dec 0 0,
         total_incl = dec 0 0,
         items = [\<lparr>item_code = [], description = ''DIESEL'', quantity = dec 100 0, unit = [],
           price = dec 200 2, tax = dec 0 0, total = dec 20000 2\<rparr>]\<rparr>
   \<and> map_of (excel_row
        \<lparr>filename = ''a.pdf'', date = [], our_reference = [], total_excl = dec 0 0,
         total_incl = dec 0 0,
         items = [\<lparr>item_code = [], description = ''DIESEL'', quantity = dec 100 0, unit = [],
           price = dec 200 2, tax = dec 0 0, total = dec 20000 2\<rparr>]\<rparr>) ''Item 1 Unit'' = Some (S [])"
proof -
  let ?l = "''DIESEL 100 2.00 200.00''"
  let ?it = "\<lparr>item_code = [], description = ''DIESEL'', quantity = dec 100 0, unit = [],
           price = dec 200 2, tax = dec 0 0, total = dec 20000 2\<rparr>"
  let ?i = "\<lparr>filename = ''a.pdf'', date = [], our_reference = [], total_excl = dec 0 0,
         total_incl = dec 0 0,
         items = [\<lparr>item_code = [], description = ''DIESEL'', quantity = dec 100 0, unit = [],
           price = dec 200 2, tax = dec 0 0, total = dec 20000 2\<rparr>]\<rparr>"
  have x: "extract_line_items ?l = Inr [?it]" by code_simp
  have p: "parse_invoice_data ?l ''a.pdf'' = Some ?i" by code_simp
  have c: "col 0 ''Unit'' = ''Item 1 Unit''" by (simp add: col_simps)
  have "map_of (excel_row ?i) (col 0 ''Unit'') = Some (S [])"
    using unit_always_empty[of ?l _ "''a.pdf''" ?i, THEN conjunct2, rule_format, OF p, of 0]
    by simp
  then have r: "map_of (excel_row ?i) ''Item 1 Unit'' = Some (S [])" unfolding c .
  show ?thesis by (rule conjI[OF x conjI[OF p r]])
qed

section \<open>The header fields\<close>














end
